theory Spec2Isabelle
  imports Complex_Main
begin

section \<open>JavaScript numbers\<close>

text \<open>
  A JavaScript number is NaN, one of the two infinities, or a finite double. A finite
  double is modelled by the real number it denotes: the rounding of every operation to
  the nearest double is not modelled, and neither is the sign of zero. Everything below
  that is stated about \<open>Fin x\<close> is therefore a statement about the exact value of the
  expression the source computes.
\<close>

datatype jsnum = NaN | PosInf | NegInf | Fin real

text \<open>The relational operators of the language on two numbers: false when an operand is NaN.\<close>

fun js_lt :: "jsnum \<Rightarrow> jsnum \<Rightarrow> bool" where
  "js_lt NaN _ = False"
| "js_lt _ NaN = False"
| "js_lt (Fin a) (Fin b) = (a < b)"
| "js_lt _ NegInf = False"
| "js_lt PosInf _ = False"
| "js_lt NegInf _ = True"
| "js_lt _ PosInf = True"

definition js_gt :: "jsnum \<Rightarrow> jsnum \<Rightarrow> bool" where
  "js_gt a b = js_lt b a"

definition js_le :: "jsnum \<Rightarrow> jsnum \<Rightarrow> bool" where
  "js_le a b = (a \<noteq> NaN \<and> b \<noteq> NaN \<and> \<not> js_lt b a)"

definition isNaN :: "jsnum \<Rightarrow> bool" where
  "isNaN x = (x = NaN)"

text \<open>\<open>!x\<close> on a number: zero and NaN are the falsy numbers.\<close>

definition js_not :: "jsnum \<Rightarrow> bool" where
  "js_not x = (x = NaN \<or> x = Fin 0)"

text \<open>\<open>Math.round\<close>: the nearest integer, a tie going up.\<close>

fun Math_round :: "jsnum \<Rightarrow> jsnum" where
  "Math_round (Fin x) = Fin (of_int \<lfloor>x + 1 / 2\<rfloor>)"
| "Math_round x = x"

section \<open>Values of a request and the built-in parsers\<close>

text \<open>
  A field of a request body is a string, a number (a JSON body), or missing. \<open>parseFloat\<close>
  and \<open>parseInt\<close> first convert their argument to a string; the string of a number
  parses back to that number, the strings of \<open>undefined\<close> and \<open>null\<close> parse to NaN.
\<close>

datatype jsval = JSString string | JSNumber jsnum | JSUndefined | JSNull

definition isDigit :: "char \<Rightarrow> bool" where
  "isDigit c = (48 \<le> (of_char c :: nat) \<and> (of_char c :: nat) \<le> 57)"

definition digitValue :: "char \<Rightarrow> nat" where
  "digitValue c = of_char c - 48"

definition digitsValue :: "string \<Rightarrow> nat" where
  "digitsValue ds = foldl (\<lambda>acc c. 10 * acc + digitValue c) 0 ds"

text \<open>The white space the parsers skip, for the ASCII characters: tab, LF, VT, FF, CR, space.\<close>

definition StrWhiteSpaceChar :: "char \<Rightarrow> bool" where
  "StrWhiteSpaceChar c = ((of_char c :: nat) \<in> {9, 10, 11, 12, 13, 32})"

text \<open>
  The exponent of the longest \<open>ExponentPart\<close> that starts the string: \<open>e\<close> or \<open>E\<close>, an
  optional sign, and at least one digit. Without a digit there is no exponent part.
\<close>

definition parseExponent :: "string \<Rightarrow> int" where
  "parseExponent s =
    (case s of
       [] \<Rightarrow> 0
     | c # r \<Rightarrow>
         if c = CHR ''e'' \<or> c = CHR ''E'' then
           (case r of
              [] \<Rightarrow> 0
            | d # r' \<Rightarrow>
                if d = CHR ''-'' then - int (digitsValue (takeWhile isDigit r'))
                else if d = CHR ''+'' then int (digitsValue (takeWhile isDigit r'))
                else int (digitsValue (takeWhile isDigit r)))
         else 0)"

text \<open>
  \<open>parseFloat\<close> on a string: skip leading white space, then take the longest prefix that
  is a \<open>StrDecimalLiteral\<close> (a sign, then \<open>Infinity\<close>, or digits with an optional
  fraction and exponent, or a fraction that starts with the point); NaN when there is
  no such prefix. The result is the exact decimal value of the prefix: its rounding to
  the nearest double, overflow to an infinity and underflow to zero are not modelled,
  and only the ASCII white space is skipped.
\<close>

definition parseFloat_string :: "string \<Rightarrow> jsnum" where
  "parseFloat_string s =
    (let t = dropWhile StrWhiteSpaceChar s;
         neg = (t \<noteq> [] \<and> hd t = CHR ''-'');
         u = (if t \<noteq> [] \<and> (hd t = CHR ''-'' \<or> hd t = CHR ''+'') then tl t else t)
     in if take 8 u = ''Infinity'' then (if neg then NegInf else PosInf)
        else
          let ip = takeWhile isDigit u;
              r1 = dropWhile isDigit u;
              hasDot = (r1 \<noteq> [] \<and> hd r1 = CHR ''.'');
              fp = (if hasDot then takeWhile isDigit (tl r1) else []);
              r2 = (if hasDot then dropWhile isDigit (tl r1) else r1)
          in if ip = [] \<and> fp = [] then NaN
             else
               let m = real (digitsValue (ip @ fp)) / 10 ^ length fp;
                   e = parseExponent r2;
                   v = (if 0 \<le> e then m * 10 ^ nat e else m / 10 ^ nat (- e))
               in Fin (if neg then - v else v))"

fun parseFloat :: "jsval \<Rightarrow> jsnum" where
  "parseFloat (JSString s) = parseFloat_string s"
| "parseFloat (JSNumber n) = n"
| "parseFloat JSUndefined = NaN"
| "parseFloat JSNull = NaN"

text \<open>
  \<open>parseInt\<close> with no radix: leading white space, a sign, \<open>0x\<close> or \<open>0X\<close> for radix 16,
  then the longest run of digits of the radix; NaN when that run is empty.
\<close>

definition hexValue :: "char \<Rightarrow> nat option" where
  "hexValue c =
    (let n = (of_char c :: nat)
     in if 48 \<le> n \<and> n \<le> 57 then Some (n - 48)
        else if 97 \<le> n \<and> n \<le> 102 then Some (n - 87)
        else if 65 \<le> n \<and> n \<le> 70 then Some (n - 55)
        else None)"

definition parseInt_string :: "string \<Rightarrow> jsnum" where
  "parseInt_string s =
    (let t = dropWhile StrWhiteSpaceChar s;
         neg = (t \<noteq> [] \<and> hd t = CHR ''-'');
         u = (if t \<noteq> [] \<and> (hd t = CHR ''-'' \<or> hd t = CHR ''+'') then tl t else t)
     in if take 2 u = ''0x'' \<or> take 2 u = ''0X'' then
          (let z = takeWhile (\<lambda>c. hexValue c \<noteq> None) (drop 2 u);
               n = foldl (\<lambda>acc c. 16 * acc + the (hexValue c)) 0 z
           in if z = [] then NaN else Fin (if neg then - real n else real n))
        else
          (let z = takeWhile isDigit u
           in if z = [] then NaN
              else Fin (if neg then - real (digitsValue z) else real (digitsValue z))))"

section \<open>The geofence evaluator (server/utils/geofence.js)\<close>

record coordinate =
  lat :: jsnum
  lng :: jsnum

record geofence_result =
  isWithin :: bool
  distance :: jsnum
  maxDistance :: jsnum
  authorizedLocation :: coordinate

text \<open>
  The failures of the core. In the source they are a response or an exception with a
  message:
  \<^item> \<open>InvalidFormat\<close>: \<^verbatim>\<open>Coordinates must be valid numbers\<close>;
  \<^item> \<open>LatitudeOutOfRange\<close>: \<^verbatim>\<open>Latitude must be between -90 and 90\<close>;
  \<^item> \<open>LongitudeOutOfRange\<close>: \<^verbatim>\<open>Longitude must be between -180 and 180\<close>;
  \<^item> \<open>InvalidCoordinates\<close>: the exception \<^verbatim>\<open>Geofence validation failed: Invalid coordinates provided\<close>;
  \<^item> \<open>PhotoRequired\<close>: status 400, \<^verbatim>\<open>Photo is required for check-in\<close> (or check-out);
  \<^item> \<open>OutsideGeofence\<close>: status 403, with the geofence result;
  \<^item> \<open>AlreadyCheckedIn\<close>, \<open>AlreadyCheckedOut\<close>: status 409;
  \<^item> \<open>NotCheckedIn\<close>: status 400, \<^verbatim>\<open>You must check in before checking out\<close>;
  \<^item> \<open>AttendanceNotFound\<close>: status 404 of the administrative deletion;
  \<^item> \<open>InternalServerError\<close>: status 500, the handler's \<open>catch\<close> of any exception.
\<close>

datatype error =
    InvalidFormat
  | LatitudeOutOfRange
  | LongitudeOutOfRange
  | InvalidCoordinates
  | PhotoRequired
  | OutsideGeofence geofence_result
  | AlreadyCheckedIn
  | AlreadyCheckedOut
  | NotCheckedIn
  | AttendanceNotFound
  | InternalServerError

subsection \<open>calculateDistance\<close>

text \<open>\<open>Math.atan2 y x\<close> on finite arguments (the angle of the point \<open>(x, y)\<close>).\<close>

definition atan2 :: "real \<Rightarrow> real \<Rightarrow> real" where
  "atan2 y x =
    (if 0 < x then arctan (y / x)
     else if x < 0 then (if 0 \<le> y then arctan (y / x) + pi else arctan (y / x) - pi)
     else if 0 < y then pi / 2
     else if y < 0 then - (pi / 2)
     else 0)"

text \<open>
  The body of \<open>calculateDistance\<close> on four finite numbers. \<open>Math.sqrt\<close> of a negative
  number is NaN, and NaN propagates through \<open>Math.atan2\<close> and the products. The
  arithmetic here is exact. In exact arithmetic the term \<open>a\<close> of two latitudes in
  \<open>[-90, 90]\<close> never leaves \<open>[0, 1]\<close>; the doubles of the source can exceed 1 by a
  rounding error at antipodal coordinates, where the source returns NaN and this
  definition does not. Nothing below is stated for such coordinates as a fact about
  the doubles.
\<close>

definition calculateDistance_finite :: "real \<Rightarrow> real \<Rightarrow> real \<Rightarrow> real \<Rightarrow> jsnum" where
  "calculateDistance_finite lat1 lon1 lat2 lon2 =
    (let R = 6371000;
         phi1 = lat1 * pi / 180;
         phi2 = lat2 * pi / 180;
         dphi = (lat2 - lat1) * pi / 180;
         dlambda = (lon2 - lon1) * pi / 180;
         a = sin (dphi / 2) * sin (dphi / 2) +
             cos phi1 * cos phi2 *
             sin (dlambda / 2) * sin (dlambda / 2)
     in if a < 0 \<or> 1 - a < 0 then NaN
        else Fin (R * (2 * atan2 (sqrt a) (sqrt (1 - a)))))"

text \<open>
  On numbers that are not all finite the result is NaN: a NaN operand makes every
  arithmetic result NaN, and an infinite latitude or longitude reaches \<open>Math.cos\<close> or
  \<open>Math.sin\<close> as an infinity or as NaN, whose sine and cosine are NaN.
\<close>

fun calculateDistance :: "jsnum \<Rightarrow> jsnum \<Rightarrow> jsnum \<Rightarrow> jsnum \<Rightarrow> jsnum" where
  "calculateDistance (Fin lat1) (Fin lon1) (Fin lat2) (Fin lon2) =
     calculateDistance_finite lat1 lon1 lat2 lon2"
| "calculateDistance _ _ _ _ = NaN"

subsection \<open>isWithinGeofence\<close>

text \<open>The three variables of the process environment the function reads.\<close>

record environment =
  AUTHORIZED_LAT :: "string option"
  AUTHORIZED_LNG :: "string option"
  GEOFENCE_RADIUS :: "string option"

text \<open>\<open>process.env.X || d\<close>: the default when the variable is unset or the empty string.\<close>

definition env_or :: "string option \<Rightarrow> jsnum \<Rightarrow> jsval" where
  "env_or v d = (case v of None \<Rightarrow> JSNumber d | Some s \<Rightarrow> if s = [] then JSNumber d else JSString s)"

definition authorizedLat :: "environment \<Rightarrow> jsnum" where
  "authorizedLat env = parseFloat (env_or (AUTHORIZED_LAT env) (Fin (- 6.2)))"

definition authorizedLng :: "environment \<Rightarrow> jsnum" where
  "authorizedLng env = parseFloat (env_or (AUTHORIZED_LNG env) (Fin 106.816666))"

text \<open>\<open>parseInt\<close> of the default, the number 500, is 500.\<close>

definition radius :: "environment \<Rightarrow> jsnum" where
  "radius env =
    (case env_or (GEOFENCE_RADIUS env) (Fin 500) of
       JSString s \<Rightarrow> parseInt_string s
     | _ \<Rightarrow> Fin 500)"

definition isWithinGeofence :: "environment \<Rightarrow> jsnum \<Rightarrow> jsnum \<Rightarrow> error + geofence_result" where
  "isWithinGeofence env userLat userLng =
    (if js_not userLat \<or> js_not userLng \<or>
        js_lt userLat (Fin (- 90)) \<or> js_gt userLat (Fin 90) \<or>
        js_lt userLng (Fin (- 180)) \<or> js_gt userLng (Fin 180)
     then Inl InvalidCoordinates
     else
       let d = calculateDistance (authorizedLat env) (authorizedLng env) userLat userLng
       in Inr \<lparr> isWithin = js_le d (radius env),
                distance = Math_round d,
                maxDistance = radius env,
                authorizedLocation = \<lparr> lat = authorizedLat env, lng = authorizedLng env \<rparr> \<rparr>)"

subsection \<open>validateCoordinates\<close>

definition validateCoordinates :: "jsval \<Rightarrow> jsval \<Rightarrow> error + coordinate" where
  "validateCoordinates rawLat rawLng =
    (let latitude = parseFloat rawLat;
         longitude = parseFloat rawLng
     in if isNaN latitude \<or> isNaN longitude then Inl InvalidFormat
        else if js_lt latitude (Fin (- 90)) \<or> js_gt latitude (Fin 90) then Inl LatitudeOutOfRange
        else if js_lt longitude (Fin (- 180)) \<or> js_gt longitude (Fin 180) then Inl LongitudeOutOfRange
        else Inr \<lparr> lat = latitude, lng = longitude \<rparr>)"

fun isFinite :: "jsnum \<Rightarrow> bool" where
  "isFinite (Fin _) = True"
| "isFinite _ = False"

subsection \<open>The reference equations of the specification\<close>

text \<open>
  The haversine distance as the specification writes it, on decimal degrees: both
  latitudes and longitudes are converted to radians, \<open>\<Delta>\<phi>\<close> and \<open>\<Delta>\<lambda>\<close> are the
  differences in radians, \<open>h = sin\<^sup>2(\<Delta>\<phi>/2) + cos \<phi>1 \<sqdot> cos \<phi>2 \<sqdot> sin\<^sup>2(\<Delta>\<lambda>/2)\<close>,
  \<open>c = 2 \<sqdot> atan2(\<surd>h, \<surd>(1 - h))\<close> and the distance is \<open>R \<sqdot> c\<close> with
  \<open>R\<close> = 6,371,000 meters.
\<close>

definition toRadians :: "real \<Rightarrow> real" where
  "toRadians deg = deg * pi / 180"

definition haversine_spec :: "real \<Rightarrow> real \<Rightarrow> real \<Rightarrow> real \<Rightarrow> real" where
  "haversine_spec lat1 lon1 lat2 lon2 =
    (let \<phi>1 = toRadians lat1;
         \<phi>2 = toRadians lat2;
         \<Delta>\<phi> = toRadians lat2 - toRadians lat1;
         \<Delta>l = toRadians lon2 - toRadians lon1;
         h = (sin (\<Delta>\<phi> / 2))\<^sup>2 + cos \<phi>1 * cos \<phi>2 * (sin (\<Delta>l / 2))\<^sup>2;
         c = 2 * atan2 (sqrt h) (sqrt (1 - h))
     in 6371000 * c)"

section \<open>The attendance state machine (server/routes/doctor.js, server/routes/admin.js)\<close>

subsection \<open>The attendance table\<close>

text \<open>
  A row of the table \<open>attendance\<close>. The columns \<open>id\<close> and \<open>type\<close> are the fields
  \<open>att_id\<close> and \<open>att_type\<close>; \<open>timestamp\<close> is the time the handler passed to the
  driver, in milliseconds since the epoch. The table is the list of its rows in the
  order of insertion, with the next value of the \<open>AUTO_INCREMENT\<close> key.
\<close>

datatype attendance_type = checkin | checkout

record attendance_row =
  att_id :: nat
  user_id :: string
  att_type :: attendance_type
  timestamp :: int
  photo_path :: string
  location_lat :: jsnum
  location_lng :: jsnum

record database =
  attendance :: "attendance_row list"
  auto_increment :: nat

definition empty_database :: database where
  "empty_database = \<lparr> attendance = [], auto_increment = 1 \<rparr>"

text \<open>
  \<open>new Date().toISOString().split('T')[0]\<close>: the calendar day of a time in UTC, here as
  the number of days since the epoch.
\<close>

definition toISODate :: "int \<Rightarrow> int" where
  "toISODate t = t div 86400000"

text \<open>
  The query of both handlers,
  \<^verbatim>\<open>SELECT id FROM attendance WHERE user_id = ? AND type = ? AND DATE(timestamp) = ?\<close>.
  \<open>DATE\<close> is the calendar day the database gives a stored time: it depends on the time
  zone in which the driver writes a \<open>DATETIME\<close>, which is not part of the repository,
  so it is a parameter.
\<close>

definition select_attendance ::
  "(int \<Rightarrow> int) \<Rightarrow> database \<Rightarrow> string \<Rightarrow> attendance_type \<Rightarrow> int \<Rightarrow> attendance_row list" where
  "select_attendance DATE db userId ty today =
    filter (\<lambda>r. user_id r = userId \<and> att_type r = ty \<and> DATE (timestamp r) = today) (attendance db)"

text \<open>
  \<^verbatim>\<open>INSERT INTO attendance (user_id, type, timestamp, photo_path, location_lat, location_lng)\<close>
\<close>

definition new_row ::
  "database \<Rightarrow> string \<Rightarrow> attendance_type \<Rightarrow> int \<Rightarrow> string \<Rightarrow> coordinate \<Rightarrow> attendance_row" where
  "new_row db userId ty ts photoPath c =
    \<lparr> att_id = auto_increment db, user_id = userId, att_type = ty, timestamp = ts,
      photo_path = photoPath, location_lat = lat c, location_lng = lng c \<rparr>"

definition insert_attendance ::
  "database \<Rightarrow> string \<Rightarrow> attendance_type \<Rightarrow> int \<Rightarrow> string \<Rightarrow> coordinate \<Rightarrow> database" where
  "insert_attendance db userId ty ts photoPath c =
    \<lparr> attendance = attendance db @ [new_row db userId ty ts photoPath c],
      auto_increment = Suc (auto_increment db) \<rparr>"

subsection \<open>The handlers\<close>

text \<open>
  What a handler reads of a request: the authenticated user (\<open>req.user.id\<close>), the two
  fields of the body, and the name of the uploaded file (\<open>req.file\<close>, missing when no
  photo was uploaded). A request has no field for the time.
\<close>

record request =
  user :: string
  latitude :: jsval
  longitude :: jsval
  upload :: "string option"

text \<open>The \<open>data\<close> of a successful response.\<close>

record attendance_data =
  data_timestamp :: int
  data_photo_path :: string
  data_location :: coordinate
  data_geofence :: geofence_result

text \<open>
  \<open>POST /doctor/checkin\<close>. The handler reads the clock twice: \<open>todayClock\<close> is the time of
  \<open>today\<close>, \<open>stampClock\<close> the time of the \<open>timestamp\<close> it stores. An exception of
  \<open>isWithinGeofence\<close> is caught by the handler and answered with status 500. The
  queries and the insertion themselves are taken to succeed.
\<close>

definition doctor_checkin ::
  "(int \<Rightarrow> int) \<Rightarrow> environment \<Rightarrow> database \<Rightarrow> request \<Rightarrow> int \<Rightarrow> int \<Rightarrow>
     (error + attendance_data) \<times> database" where
  "doctor_checkin DATE env db req todayClock stampClock =
    (case validateCoordinates (latitude req) (longitude req) of
       Inl e \<Rightarrow> (Inl e, db)
     | Inr coordValidation \<Rightarrow>
        (case upload req of
           None \<Rightarrow> (Inl PhotoRequired, db)
         | Some filename \<Rightarrow>
            (case isWithinGeofence env (lat coordValidation) (lng coordValidation) of
               Inl e \<Rightarrow> (Inl InternalServerError, db)
             | Inr geofenceResult \<Rightarrow>
                 if \<not> isWithin geofenceResult then (Inl (OutsideGeofence geofenceResult), db)
                 else
                   let today = toISODate todayClock;
                       existingCheckin = select_attendance DATE db (user req) checkin today
                   in if length existingCheckin > 0 then (Inl AlreadyCheckedIn, db)
                      else
                        let photoPath = ''uploads/attendance/'' @ filename
                        in (Inr \<lparr> data_timestamp = stampClock, data_photo_path = photoPath,
                                  data_location = coordValidation,
                                  data_geofence = geofenceResult \<rparr>,
                            insert_attendance db (user req) checkin stampClock photoPath
                              coordValidation))))"

text \<open>\<open>POST /doctor/checkout\<close>.\<close>

definition doctor_checkout ::
  "(int \<Rightarrow> int) \<Rightarrow> environment \<Rightarrow> database \<Rightarrow> request \<Rightarrow> int \<Rightarrow> int \<Rightarrow>
     (error + attendance_data) \<times> database" where
  "doctor_checkout DATE env db req todayClock stampClock =
    (case validateCoordinates (latitude req) (longitude req) of
       Inl e \<Rightarrow> (Inl e, db)
     | Inr coordValidation \<Rightarrow>
        (case upload req of
           None \<Rightarrow> (Inl PhotoRequired, db)
         | Some filename \<Rightarrow>
            (case isWithinGeofence env (lat coordValidation) (lng coordValidation) of
               Inl e \<Rightarrow> (Inl InternalServerError, db)
             | Inr geofenceResult \<Rightarrow>
                 if \<not> isWithin geofenceResult then (Inl (OutsideGeofence geofenceResult), db)
                 else
                   let today = toISODate todayClock;
                       existingCheckin = select_attendance DATE db (user req) checkin today
                   in if length existingCheckin = 0 then (Inl NotCheckedIn, db)
                      else
                        let existingCheckout = select_attendance DATE db (user req) checkout today
                        in if length existingCheckout > 0 then (Inl AlreadyCheckedOut, db)
                           else
                             let photoPath = ''uploads/attendance/'' @ filename
                             in (Inr \<lparr> data_timestamp = stampClock, data_photo_path = photoPath,
                                       data_location = coordValidation,
                                       data_geofence = geofenceResult \<rparr>,
                                 insert_attendance db (user req) checkout stampClock photoPath
                                   coordValidation))))"

text \<open>
  \<open>DELETE /admin/delete-attendance/:attendanceId\<close>: status 404 when no row has the id,
  else the row is deleted. \<open>attendanceId\<close> is the number the parameter of the path
  denotes.
\<close>

definition delete_attendance :: "database \<Rightarrow> nat \<Rightarrow> (error + unit) \<times> database" where
  "delete_attendance db attendanceId =
    (let existingRecord = filter (\<lambda>r. att_id r = attendanceId) (attendance db)
     in if length existingRecord = 0 then (Inl AttendanceNotFound, db)
        else (Inr (), db \<lparr> attendance := filter (\<lambda>r. att_id r \<noteq> attendanceId) (attendance db) \<rparr>))"

subsection \<open>Sequences of operations\<close>

datatype operation =
    CheckIn request int int
  | CheckOut request int int
  | DeleteAttendance nat

fun step :: "(int \<Rightarrow> int) \<Rightarrow> environment \<Rightarrow> database \<Rightarrow> operation \<Rightarrow> database" where
  "step DATE env db (CheckIn req todayClock stampClock) = snd (doctor_checkin DATE env db req todayClock stampClock)"
| "step DATE env db (CheckOut req todayClock stampClock) = snd (doctor_checkout DATE env db req todayClock stampClock)"
| "step DATE env db (DeleteAttendance attendanceId) = snd (delete_attendance db attendanceId)"

definition run :: "(int \<Rightarrow> int) \<Rightarrow> environment \<Rightarrow> operation list \<Rightarrow> database" where
  "run DATE env ops = foldl (step DATE env) empty_database ops"

text \<open>
  An operation is served within one calendar day when the day the database gives the
  stored timestamp is the day the handler checked.
\<close>

fun same_day :: "(int \<Rightarrow> int) \<Rightarrow> operation \<Rightarrow> bool" where
  "same_day DATE (CheckIn req todayClock stampClock) = (DATE stampClock = toISODate todayClock)"
| "same_day DATE (CheckOut req todayClock stampClock) = (DATE stampClock = toISODate todayClock)"
| "same_day DATE (DeleteAttendance attendanceId) = True"

fun is_delete :: "operation \<Rightarrow> bool" where
  "is_delete (DeleteAttendance attendanceId) = True"
| "is_delete _ = False"

text \<open>The records of a type that a user has on a calendar day.\<close>

definition records_of ::
  "(int \<Rightarrow> int) \<Rightarrow> database \<Rightarrow> string \<Rightarrow> int \<Rightarrow> attendance_type \<Rightarrow> attendance_row list" where
  "records_of DATE db userId day ty =
    filter (\<lambda>r. user_id r = userId \<and> DATE (timestamp r) = day \<and> att_type r = ty) (attendance db)"

definition at_most_one_each :: "(int \<Rightarrow> int) \<Rightarrow> database \<Rightarrow> bool" where
  "at_most_one_each DATE db =
    (\<forall>userId day. length (records_of DATE db userId day checkin) \<le> 1 \<and>
                  length (records_of DATE db userId day checkout) \<le> 1)"

definition checkout_has_checkin :: "(int \<Rightarrow> int) \<Rightarrow> database \<Rightarrow> bool" where
  "checkout_has_checkin DATE db =
    (\<forall>userId day. records_of DATE db userId day checkout \<noteq> [] \<longrightarrow>
                  records_of DATE db userId day checkin \<noteq> [])"

text \<open>The invariant of the attendance records, as the specification states it.\<close>

definition attendance_invariant :: "(int \<Rightarrow> int) \<Rightarrow> database \<Rightarrow> bool" where
  "attendance_invariant DATE db = (at_most_one_each DATE db \<and> checkout_has_checkin DATE db)"

text \<open>The environment with no variable set: the defaults of the source.\<close>

definition default_environment :: environment where
  "default_environment = \<lparr> AUTHORIZED_LAT = None, AUTHORIZED_LNG = None, GEOFENCE_RADIUS = None \<rparr>"

text \<open>A number is in a closed interval when it is finite and lies between the bounds.\<close>

definition in_range :: "real \<Rightarrow> real \<Rightarrow> jsnum \<Rightarrow> bool" where
  "in_range lo hi x = (case x of Fin r \<Rightarrow> lo \<le> r \<and> r \<le> hi | _ \<Rightarrow> False)"

subsection \<open>Concrete inputs\<close>

text \<open>
  A request of a doctor who stands on the default authorized location and uploads a
  photo; an environment whose authorized location lies on the equator; and the table
  after the first check-in of that doctor at time 0.
\<close>

definition site_request :: request where
  "site_request = \<lparr> user = ''19900101'', latitude = JSString ''-6.2'',
      longitude = JSString ''106.816666'', upload = Some ''photo.jpg'' \<rparr>"

definition equator_site :: environment where
  "equator_site =
     \<lparr> AUTHORIZED_LAT = Some ''0'', AUTHORIZED_LNG = Some ''100'', GEOFENCE_RADIUS = None \<rparr>"

text \<open>A request of a doctor who stands on the authorized location of \<open>equator_site\<close>.\<close>

definition equator_request :: request where
  "equator_request = \<lparr> user = ''19900101'', latitude = JSString ''0'',
      longitude = JSString ''100'', upload = Some ''photo.jpg'' \<rparr>"

text \<open>The calendar day of a database whose stored times run seven hours ahead of UTC.\<close>

definition DATE_ahead :: "int \<Rightarrow> int" where
  "DATE_ahead t = (t + 25200000) div 86400000"

definition checked_in_database :: database where
  "checked_in_database =
     \<lparr> attendance =
         [\<lparr> att_id = 1, user_id = ''19900101'', att_type = checkin, timestamp = 0,
            photo_path = ''uploads/attendance/photo.jpg'',
            location_lat = Fin (- 6.2), location_lng = Fin 106.816666 \<rparr>],
       auto_increment = 2 \<rparr>"

section \<open>Properties\<close>

subsection \<open>Evaluating the parsers\<close>

lemmas parse_defs = parseFloat_string_def parseExponent_def isDigit_def digitsValue_def
  digitValue_def StrWhiteSpaceChar_def Let_def

lemma parseFloat_abc: "parseFloat_string ''abc'' = NaN"
  by (simp add: parse_defs)

lemma parseFloat_Infinity: "parseFloat_string ''Infinity'' = PosInf"
  by (simp add: parse_defs)

lemma parseFloat_0: "parseFloat_string ''0'' = Fin 0"
  by (simp add: parse_defs)

lemma parseFloat_100: "parseFloat_string ''100'' = Fin 100"
  by (simp add: parse_defs)

lemma parseFloat_lat: "parseFloat_string ''-6.2'' = Fin (- 6.2)"
  by (simp add: parse_defs)

lemma parseFloat_north: "parseFloat_string ''-5.2'' = Fin (- 5.2)"
  by (simp add: parse_defs)

lemma parseFloat_lng: "parseFloat_string ''106.816666'' = Fin 106.816666"
  by (simp add: parse_defs)

lemma parseFloat_exponent: "parseFloat_string '' 1.5e2xyz'' = Fin 150"
  by (simp add: parse_defs)

lemma parseInt_hex: "parseInt_string ''0x1F'' = Fin 31"
  by (simp add: parseInt_string_def hexValue_def parse_defs)

lemma default_authorizedLat: "authorizedLat default_environment = Fin (- 6.2)"
  by (simp add: authorizedLat_def env_or_def default_environment_def)

lemma default_authorizedLng: "authorizedLng default_environment = Fin 106.816666"
  by (simp add: authorizedLng_def env_or_def default_environment_def)

lemma default_radius: "radius default_environment = Fin 500"
  by (simp add: radius_def env_or_def default_environment_def)

lemmas default_config = default_authorizedLat default_authorizedLng default_radius

lemma radius_parsed:
  "radius \<lparr> AUTHORIZED_LAT = None, AUTHORIZED_LNG = None, GEOFENCE_RADIUS = Some ''250'' \<rparr> = Fin 250"
  by (simp add: radius_def env_or_def parseInt_string_def parse_defs)

subsection \<open>The haversine term\<close>

lemma atan2_sin_cos:
  assumes "0 \<le> x" "x < pi / 2"
  shows "atan2 (sin x) (cos x) = x"
proof -
  have c: "0 < cos x" using assms by (intro cos_gt_zero_pi) (auto intro: less_le_trans [of _ 0])
  have "arctan (sin x / cos x) = x"
    using arctan_tan [of x] assms by (simp add: tan_def)
  with c show ?thesis by (simp add: atan2_def)
qed

text \<open>For latitudes between the poles the term under the square roots lies in \<open>[0, 1]\<close>.\<close>

lemma haversine_term_bounds:
  fixes p1 p2 l :: real
  assumes "- (pi / 2) \<le> p1" "p1 \<le> pi / 2" "- (pi / 2) \<le> p2" "p2 \<le> pi / 2"
  defines "a \<equiv> sin ((p2 - p1) / 2) * sin ((p2 - p1) / 2) + cos p1 * cos p2 * sin l * sin l"
  shows "0 \<le> a" and "a \<le> 1"
proof -
  have c1: "0 \<le> cos p1" and c2: "0 \<le> cos p2"
    using assms by (auto intro: cos_ge_zero)
  have cc: "0 \<le> cos p1 * cos p2" using c1 c2 by simp
  have s: "sin l * sin l \<le> 1"
    using sin_cos_squared_add [of l] by (smt (verit) power2_eq_square zero_le_power2)
  have s0: "0 \<le> sin l * sin l" by simp
  show "0 \<le> a" unfolding a_def using cc s0
    by (metis add_nonneg_nonneg mult.assoc mult_nonneg_nonneg zero_le_square)
  have "cos p1 * cos p2 * sin l * sin l = (cos p1 * cos p2) * (sin l * sin l)" by simp
  also have "\<dots> \<le> cos p1 * cos p2" using cc s by (metis mult.right_neutral mult_left_mono)
  finally have le: "a \<le> sin ((p2 - p1) / 2) * sin ((p2 - p1) / 2) + cos p1 * cos p2"
    unfolding a_def by simp
  have "2 * ((p2 - p1) / 2) = p2 - p1" by simp
  then have "cos (p2 - p1) = 1 - 2 * (sin ((p2 - p1) / 2))\<^sup>2"
    using cos_double_sin [of "(p2 - p1) / 2"] by (simp only:)
  then have h: "sin ((p2 - p1) / 2) * sin ((p2 - p1) / 2) = (1 - cos (p2 - p1)) / 2"
    by (simp add: power2_eq_square)
  have "sin ((p2 - p1) / 2) * sin ((p2 - p1) / 2) + cos p1 * cos p2 = 1 / 2 + cos (p1 + p2) / 2"
    unfolding h by (simp add: cos_diff cos_add field_simps)
  also have "\<dots> \<le> 1" using cos_le_one [of "p1 + p2"] by linarith
  finally show "a \<le> 1" using le by simp
qed

lemma degrees_bounds:
  fixes y :: real
  assumes "- 90 \<le> y" "y \<le> 90"
  shows "- (pi / 2) \<le> y * pi / 180" and "y * pi / 180 \<le> pi / 2"
proof -
  have "y * pi \<le> 90 * pi" using assms by (intro mult_right_mono) auto
  moreover have "(- 90) * pi \<le> y * pi" using assms by (intro mult_right_mono) auto
  ultimately show "- (pi / 2) \<le> y * pi / 180" and "y * pi / 180 \<le> pi / 2" by simp_all
qed

lemma calculateDistance_finite_same: "calculateDistance_finite la lo la lo = Fin 0"
  by (simp add: calculateDistance_finite_def atan2_def)

lemma calculateDistance_finite_sym:
  "calculateDistance_finite la1 lo1 la2 lo2 = calculateDistance_finite la2 lo2 la1 lo1"
proof -
  have neg: "(x - y) * pi / 180 / 2 = - ((y - x) * pi / 180 / 2)" for x y :: real
    by (simp add: field_simps)
  have a: "sin ((la1 - la2) * pi / 180 / 2) = - sin ((la2 - la1) * pi / 180 / 2)"
    by (simp only: neg [of la1 la2] sin_minus)
  have b: "sin ((lo1 - lo2) * pi / 180 / 2) = - sin ((lo2 - lo1) * pi / 180 / 2)"
    by (simp only: neg [of lo1 lo2] sin_minus)
  show ?thesis
    unfolding calculateDistance_finite_def Let_def a b by (simp add: mult.commute)
qed

text \<open>Along a meridian the result is the arc between the two latitudes.\<close>

lemma calculateDistance_finite_meridian:
  assumes "lat1 \<le> lat2" "lat2 - lat1 < 180"
  shows "calculateDistance_finite lat1 lon lat2 lon = Fin (6371000 * ((lat2 - lat1) * pi / 180))"
proof -
  define x where "x = (lat2 - lat1) * pi / 180 / 2"
  have x0: "0 \<le> x" using assms by (simp add: x_def)
  have "(lat2 - lat1) * pi < 180 * pi" using assms by simp
  then have x1: "x < pi / 2" by (simp add: x_def)
  have s: "0 \<le> sin x" using x0 x1 pi_gt_zero by (intro sin_ge_zero) linarith+
  have c: "0 \<le> cos x" using x0 x1 by (intro cos_ge_zero) linarith+
  have one: "1 - sin x * sin x = cos x * cos x"
    using sin_cos_squared_add [of x] by (simp add: power2_eq_square)
  have a: "sin x * sin x + cos (lat1 * pi / 180) * cos (lat2 * pi / 180) * sin ((lon - lon) * pi / 180 / 2) * sin ((lon - lon) * pi / 180 / 2) = sin x * sin x"
    by simp
  have r1: "sqrt (sin x * sin x) = sin x" using s by simp
  have r2: "sqrt (cos x * cos x) = cos x" using c by simp
  have "calculateDistance_finite lat1 lon lat2 lon = Fin (6371000 * (2 * atan2 (sin x) (cos x)))"
    unfolding calculateDistance_finite_def Let_def x_def [symmetric] a one r1 r2
    by simp
  also have "atan2 (sin x) (cos x) = x" using x0 x1 by (rule atan2_sin_cos)
  finally show ?thesis by (simp add: x_def)
qed

text \<open>The code and the reference equations agree between the poles.\<close>

lemma calculateDistance_finite_haversine:
  assumes "- 90 \<le> lat1" "lat1 \<le> 90" "- 90 \<le> lat2" "lat2 \<le> 90"
  shows "calculateDistance_finite lat1 lon1 lat2 lon2 = Fin (haversine_spec lat1 lon1 lat2 lon2)"
proof -
  define p1 where "p1 = lat1 * pi / 180"
  define p2 where "p2 = lat2 * pi / 180"
  define l where "l = (lon2 - lon1) * pi / 180 / 2"
  define a where "a = sin ((p2 - p1) / 2) * sin ((p2 - p1) / 2) + cos p1 * cos p2 * sin l * sin l"
  have b: "- (pi / 2) \<le> p1" "p1 \<le> pi / 2" "- (pi / 2) \<le> p2" "p2 \<le> pi / 2"
    using assms degrees_bounds [of lat1] degrees_bounds [of lat2] by (simp_all add: p1_def p2_def)
  have a0: "0 \<le> a" and a1: "a \<le> 1"
    unfolding a_def using haversine_term_bounds [OF b] by simp_all
  have d: "(lat2 - lat1) * pi / 180 = p2 - p1"
    by (simp add: p1_def p2_def algebra_simps diff_divide_distrib)
  have code: "calculateDistance_finite lat1 lon1 lat2 lon2 = Fin (6371000 * (2 * atan2 (sqrt a) (sqrt (1 - a))))"
    unfolding calculateDistance_finite_def Let_def d p1_def [symmetric] p2_def [symmetric] l_def [symmetric]
      a_def [symmetric]
    using a0 a1 by simp
  have dl: "toRadians lon2 - toRadians lon1 = 2 * l"
    by (simp add: toRadians_def l_def algebra_simps diff_divide_distrib)
  have spec: "haversine_spec lat1 lon1 lat2 lon2 = 6371000 * (2 * atan2 (sqrt a) (sqrt (1 - a)))"
    unfolding haversine_spec_def Let_def dl
    by (simp add: toRadians_def p1_def [symmetric] p2_def [symmetric] a_def power2_eq_square mult.assoc)
  show ?thesis using code spec by simp
qed

subsection \<open>validateCoordinates\<close>

lemma not_in_range_iff:
  "x \<noteq> NaN \<Longrightarrow> (\<not> in_range lo hi x) = (js_lt x (Fin lo) \<or> js_gt x (Fin hi))"
  by (cases x) (auto simp: in_range_def js_gt_def)

lemma validateCoordinates_at_site:
  "validateCoordinates (JSString ''-6.2'') (JSString ''106.816666'') =
     Inr \<lparr> lat = Fin (- 6.2), lng = Fin 106.816666 \<rparr>"
  by (simp add: validateCoordinates_def isNaN_def js_gt_def parseFloat_lat parseFloat_lng)

text \<open>
  Claim C6, as the code has it. \<open>validateCoordinates\<close> fails with \<open>InvalidFormat\<close>
  exactly when one of the two inputs parses to NaN. When neither does, it fails with
  \<open>LatitudeOutOfRange\<close> when the parsed latitude is not a number of \<open>[-90, 90]\<close> (an
  infinity is not), then with \<open>LongitudeOutOfRange\<close> when the parsed longitude is not a
  number of \<open>[-180, 180]\<close>, and otherwise returns the parsed pair. The three examples
  of the specification hold.
\<close>

theorem validateCoordinates_cases:
  "(validateCoordinates rawLat rawLng = Inl InvalidFormat \<longleftrightarrow>
      parseFloat rawLat = NaN \<or> parseFloat rawLng = NaN) \<and>
   (parseFloat rawLat \<noteq> NaN \<and> parseFloat rawLng \<noteq> NaN \<longrightarrow>
      validateCoordinates rawLat rawLng =
        (if \<not> in_range (- 90) 90 (parseFloat rawLat) then Inl LatitudeOutOfRange
         else if \<not> in_range (- 180) 180 (parseFloat rawLng) then Inl LongitudeOutOfRange
         else Inr \<lparr> lat = parseFloat rawLat, lng = parseFloat rawLng \<rparr>)) \<and>
   validateCoordinates (JSNumber (Fin 91)) (JSNumber (Fin 0)) = Inl LatitudeOutOfRange \<and>
   validateCoordinates (JSString ''abc'') (JSNumber (Fin 10)) = Inl InvalidFormat \<and>
   validateCoordinates (JSNumber (Fin 0)) (JSNumber (Fin 181)) = Inl LongitudeOutOfRange"
proof (intro conjI impI)
  show "validateCoordinates rawLat rawLng = Inl InvalidFormat \<longleftrightarrow>
      parseFloat rawLat = NaN \<or> parseFloat rawLng = NaN"
    by (simp add: validateCoordinates_def Let_def isNaN_def)
next
  assume n: "parseFloat rawLat \<noteq> NaN \<and> parseFloat rawLng \<noteq> NaN"
  then show "validateCoordinates rawLat rawLng =
        (if \<not> in_range (- 90) 90 (parseFloat rawLat) then Inl LatitudeOutOfRange
         else if \<not> in_range (- 180) 180 (parseFloat rawLng) then Inl LongitudeOutOfRange
         else Inr \<lparr> lat = parseFloat rawLat, lng = parseFloat rawLng \<rparr>)"
    by (simp add: validateCoordinates_def Let_def isNaN_def not_in_range_iff)
next
  show "validateCoordinates (JSNumber (Fin 91)) (JSNumber (Fin 0)) = Inl LatitudeOutOfRange"
    by (simp add: validateCoordinates_def isNaN_def js_gt_def)
next
  show "validateCoordinates (JSString ''abc'') (JSNumber (Fin 10)) = Inl InvalidFormat"
    by (simp add: validateCoordinates_def isNaN_def parseFloat_abc)
next
  show "validateCoordinates (JSNumber (Fin 0)) (JSNumber (Fin 181)) = Inl LongitudeOutOfRange"
    by (simp add: validateCoordinates_def isNaN_def js_gt_def)
qed

text \<open>
  The theorem at the default authorized location, and at a longitude that parses to
  an infinity.
\<close>

theorem validateCoordinates_cases_witness:
  "parseFloat (JSString ''-6.2'') \<noteq> NaN \<and> parseFloat (JSString ''106.816666'') \<noteq> NaN \<and>
   validateCoordinates (JSString ''-6.2'') (JSString ''106.816666'') =
     Inr \<lparr> lat = Fin (- 6.2), lng = Fin 106.816666 \<rparr> \<and>
   validateCoordinates (JSString ''-6.2'') (JSString ''Infinity'') = Inl LongitudeOutOfRange"
  using validateCoordinates_cases [of "JSString ''-6.2''" "JSString ''106.816666''"]
    validateCoordinates_cases [of "JSString ''-6.2''" "JSString ''Infinity''"]
  by (simp add: parseFloat_lat parseFloat_lng parseFloat_Infinity in_range_def)

text \<open>
  Claim C6 as the specification states it fails: the latitude \<open>Infinity\<close> does not
  parse to a finite number, and the failure is \<open>LatitudeOutOfRange\<close>, not
  \<open>InvalidFormat\<close>. The source tests \<open>isNaN\<close>, and an infinity is not NaN.
\<close>

theorem validateCoordinates_infinity_counterexample:
  "\<not> isFinite (parseFloat (JSString ''Infinity'')) \<and>
   validateCoordinates (JSString ''Infinity'') (JSString ''0'') \<noteq> Inl InvalidFormat \<and>
   validateCoordinates (JSString ''Infinity'') (JSString ''0'') = Inl LatitudeOutOfRange"
  by (simp add: validateCoordinates_def isNaN_def js_gt_def parseFloat_Infinity parseFloat_0)

subsection \<open>isWithinGeofence\<close>

text \<open>
  On a validated coordinate whose latitude and longitude are both different from zero
  the function returns the result the specification describes.
\<close>

lemma isWithinGeofence_validated:
  assumes "validateCoordinates rawLat rawLng = Inr c" "lat c \<noteq> Fin 0" "lng c \<noteq> Fin 0"
  shows "isWithinGeofence env (lat c) (lng c) =
    Inr \<lparr> isWithin = js_le (calculateDistance (authorizedLat env) (authorizedLng env) (lat c) (lng c)) (radius env),
          distance = Math_round (calculateDistance (authorizedLat env) (authorizedLng env) (lat c) (lng c)),
          maxDistance = radius env,
          authorizedLocation = \<lparr> lat = authorizedLat env, lng = authorizedLng env \<rparr> \<rparr>"
  using assms
  by (auto simp: validateCoordinates_def isWithinGeofence_def Let_def isNaN_def js_not_def
      split: if_splits)

lemma within_fence_boundary:
  "js_le (Fin r) (Fin r) \<and> \<not> js_le (Fin (r + 1)) (Fin r)"
  by (simp add: js_le_def)

lemma isWithinGeofence_at_site:
  "isWithinGeofence default_environment (Fin (- 6.2)) (Fin 106.816666) =
     Inr \<lparr> isWithin = True, distance = Fin 0, maxDistance = Fin 500,
           authorizedLocation = \<lparr> lat = Fin (- 6.2), lng = Fin 106.816666 \<rparr> \<rparr>"
  by (simp add: isWithinGeofence_def default_config js_not_def js_gt_def js_le_def
      calculateDistance_finite_same)

text \<open>
  Claim C5 at a latitude on the equator. \<open>validateCoordinates\<close> accepts the pair
  \<open>("0", "106.816666")\<close>, and \<open>isWithinGeofence\<close> fails on the validated coordinate
  with \<open>InvalidCoordinates\<close>: \<open>!userLat\<close> is true of the number zero.
\<close>

theorem validated_zero_latitude_rejected:
  "validateCoordinates (JSString ''0'') (JSString ''106.816666'') =
     Inr \<lparr> lat = Fin 0, lng = Fin 106.816666 \<rparr> \<and>
   isWithinGeofence default_environment (Fin 0) (Fin 106.816666) = Inl InvalidCoordinates"
  by (simp add: validateCoordinates_def isNaN_def js_gt_def parseFloat_0 parseFloat_lng
      isWithinGeofence_def js_not_def)

text \<open>
  Claim C2 at an authorized location on the equator, \<open>(0, 100)\<close> with the default
  radius. The claimed coordinate \<open>("0", "100")\<close> is validated, its computed distance
  to the authorized location is 0, which is within the radius, and \<open>isWithinGeofence\<close>
  returns no result: it fails with \<open>InvalidCoordinates\<close>.
\<close>

theorem validated_site_on_equator_no_result:
  "validateCoordinates (JSString ''0'') (JSString ''100'') = Inr \<lparr> lat = Fin 0, lng = Fin 100 \<rparr> \<and>
   calculateDistance (authorizedLat equator_site) (authorizedLng equator_site) (Fin 0) (Fin 100) = Fin 0 \<and>
   js_le (Fin 0) (radius equator_site) \<and>
   isWithinGeofence equator_site (Fin 0) (Fin 100) = Inl InvalidCoordinates"
  by (simp add: validateCoordinates_def isNaN_def js_gt_def parseFloat_0 parseFloat_100
      isWithinGeofence_def js_not_def js_le_def authorizedLat_def authorizedLng_def radius_def
      env_or_def equator_site_def calculateDistance_finite_same)

subsection \<open>calculateDistance\<close>

text \<open>
  The next three lemmas are about the exact value of the expression that
  \<open>calculateDistance\<close> computes, not about its doubles. For latitudes in \<open>[-90, 90]\<close>
  the exact term under the square roots lies in \<open>[0, 1]\<close>, the exact value is that of
  the reference equations, and exchanging the two coordinates does not change it. The
  doubles of the source are not bound by this: the source does not clamp the term, and
  for the coordinates \<open>(-12, -180)\<close> and \<open>(12, 0)\<close> the rounded term is
  \<open>1.0000000000000002\<close>, so that \<open>Math.sqrt(1 - a)\<close> and the result are NaN, in both
  orders.
\<close>

lemma exact_distance_haversine:
  assumes "- 90 \<le> lat1" "lat1 \<le> 90" "- 90 \<le> lat2" "lat2 \<le> 90"
  shows "calculateDistance (Fin lat1) (Fin lon1) (Fin lat2) (Fin lon2) =
           Fin (haversine_spec lat1 lon1 lat2 lon2)"
  using assms by (simp add: calculateDistance_finite_haversine)

lemma exact_distance_symmetric:
  "calculateDistance lat1 lon1 lat2 lon2 = calculateDistance lat2 lon2 lat1 lon1"
  by (cases lat1; cases lon1; cases lat2; cases lon2)
    (simp_all add: calculateDistance_finite_sym)

lemma exact_distance_quarter_meridian:
  "calculateDistance (Fin 0) (Fin 0) (Fin 90) (Fin 0) = Fin (6371000 * (pi / 2))"
  using calculateDistance_finite_meridian [of 0 90 0] by simp

text \<open>The distance from a coordinate to itself is 0, in exact arithmetic and in doubles.\<close>

lemma distance_to_itself:
  "calculateDistance (Fin la) (Fin lo) (Fin la) (Fin lo) = Fin 0"
  by (simp add: calculateDistance_finite_same)

text \<open>
  A distance above an integer radius by less than half a meter is outside the fence
  and rounds to the radius.
\<close>

lemma outside_within_half_meter:
  assumes "isWithinGeofence env userLat userLng = Inr g"
    and "calculateDistance (authorizedLat env) (authorizedLng env) userLat userLng = Fin d"
    and "radius env = Fin (of_int r)"
    and "of_int r < d" and "d < of_int r + 1 / 2"
  shows "\<not> isWithin g \<and> distance g = maxDistance g"
proof -
  have "\<lfloor>d + 1 / 2\<rfloor> = r"
    using assms(4,5) by (intro floor_unique) simp_all
  then show ?thesis
    using assms by (auto simp: isWithinGeofence_def Let_def js_le_def split: if_splits)
qed

text \<open>
  Claim C10. With the default configuration there is a validated coordinate whose
  distance lies strictly between the radius and the radius plus half a meter: it is
  classified as outside the fence, and the rounded distance reported with the result
  equals \<open>maxDistance\<close>. The coordinate is the point 500.25 meters north of the
  authorized location, on its meridian.
\<close>

theorem rounded_distance_equals_limit_outside:
  "\<exists>userLat userLng d g.
     validateCoordinates (JSNumber userLat) (JSNumber userLng) = Inr \<lparr> lat = userLat, lng = userLng \<rparr> \<and>
     calculateDistance (authorizedLat default_environment) (authorizedLng default_environment)
       userLat userLng = Fin d \<and>
     500 < d \<and> d < 500.5 \<and>
     isWithinGeofence default_environment userLat userLng = Inr g \<and>
     \<not> isWithin g \<and> distance g = maxDistance g"
proof -
  define e :: real where "e = 500.25 * 180 / (6371000 * pi)"
  have e0: "0 < e" by (simp add: e_def)
  have "500.25 * 180 < 6371000 * (2::real)" by simp
  also have "\<dots> \<le> 6371000 * pi" using pi_ge_two by simp
  finally have e1: "e < 1" by (simp add: e_def)
  have ep: "e * pi / 180 = 500.25 / 6371000" by (simp add: e_def)
  have "calculateDistance_finite (- 6.2) 106.816666 (- 6.2 + e) 106.816666 =
          Fin (6371000 * ((- 6.2 + e - (- 6.2)) * pi / 180))"
    using e0 e1 by (intro calculateDistance_finite_meridian) simp_all
  then have d: "calculateDistance_finite (- 6.2) 106.816666 (- 6.2 + e) 106.816666 = Fin 500.25"
    by (simp add: ep)
  have v: "validateCoordinates (JSNumber (Fin (- 6.2 + e))) (JSNumber (Fin 106.816666)) =
             Inr \<lparr> lat = Fin (- 6.2 + e), lng = Fin 106.816666 \<rparr>"
    using e0 e1 by (simp add: validateCoordinates_def isNaN_def js_gt_def)
  let ?g = "\<lparr> isWithin = False, distance = Fin 500, maxDistance = Fin 500,
              authorizedLocation = \<lparr> lat = Fin (- 6.2), lng = Fin 106.816666 \<rparr> \<rparr>"
  have g: "isWithinGeofence default_environment (Fin (- 6.2 + e)) (Fin 106.816666) = Inr ?g"
    using e0 e1 d by (simp add: isWithinGeofence_def default_config js_not_def js_gt_def js_le_def)
  have "validateCoordinates (JSNumber (Fin (- 6.2 + e))) (JSNumber (Fin 106.816666)) =
          Inr \<lparr> lat = Fin (- 6.2 + e), lng = Fin 106.816666 \<rparr> \<and>
        calculateDistance (authorizedLat default_environment) (authorizedLng default_environment)
          (Fin (- 6.2 + e)) (Fin 106.816666) = Fin 500.25 \<and>
        500 < (500.25::real) \<and> (500.25::real) < 500.5 \<and>
        isWithinGeofence default_environment (Fin (- 6.2 + e)) (Fin 106.816666) = Inr ?g \<and>
        \<not> isWithin ?g \<and> distance ?g = maxDistance ?g"
    using v g d by (simp add: default_config)
  then show ?thesis by blast
qed

section \<open>Properties of the attendance state machine\<close>

subsection \<open>The table\<close>

lemma select_attendance_records_of:
  "select_attendance DATE db userId ty day = records_of DATE db userId day ty"
  by (simp add: select_attendance_def records_of_def conj_commute conj_left_commute cong: conj_cong)

lemma records_of_insert:
  "records_of DATE (insert_attendance db u ty ts p c) u' d ty' =
     records_of DATE db u' d ty' @
       (if u = u' \<and> DATE ts = d \<and> ty = ty' then [new_row db u ty ts p c] else [])"
  by (simp add: records_of_def insert_attendance_def new_row_def)

lemma records_of_delete:
  "records_of DATE (db \<lparr> attendance := filter P (attendance db) \<rparr>) u d ty =
     filter P (records_of DATE db u d ty)"
  by (simp add: records_of_def) (metis (mono_tags, lifting) filter_cong)

lemma select_attendance_insert:
  "select_attendance DATE (insert_attendance db u ty ts p c) u' ty' d =
     select_attendance DATE db u' ty' d @
       (if u = u' \<and> DATE ts = d \<and> ty = ty' then [new_row db u ty ts p c] else [])"
  by (simp add: select_attendance_records_of records_of_insert)

lemmas table_defs = select_attendance_def insert_attendance_def new_row_def empty_database_def
  toISODate_def delete_attendance_def

subsection \<open>The outcomes of the handlers\<close>

text \<open>
  A handler either fails and leaves the table as it is, or inserts one row, after the
  queries that guard the insertion found what they must.
\<close>

lemma doctor_checkin_outcome:
  "(\<exists>e. doctor_checkin DATE env db req todayClock stampClock = (Inl e, db)) \<or>
   (\<exists>data p c.
      doctor_checkin DATE env db req todayClock stampClock =
        (Inr data, insert_attendance db (user req) checkin stampClock p c) \<and>
      records_of DATE db (user req) (toISODate todayClock) checkin = [])"
  by (auto simp: doctor_checkin_def select_attendance_records_of Let_def
      split: sum.split option.split)

lemma doctor_checkin_cases:
  obtains (fail) e where "doctor_checkin DATE env db req todayClock stampClock = (Inl e, db)"
  | (ok) data p c where
      "doctor_checkin DATE env db req todayClock stampClock =
         (Inr data, insert_attendance db (user req) checkin stampClock p c)"
      "records_of DATE db (user req) (toISODate todayClock) checkin = []"
  using doctor_checkin_outcome [of DATE env db req todayClock stampClock] by blast

lemma doctor_checkout_outcome:
  "(\<exists>e. doctor_checkout DATE env db req todayClock stampClock = (Inl e, db)) \<or>
   (\<exists>data p c.
      doctor_checkout DATE env db req todayClock stampClock =
        (Inr data, insert_attendance db (user req) checkout stampClock p c) \<and>
      records_of DATE db (user req) (toISODate todayClock) checkin \<noteq> [] \<and>
      records_of DATE db (user req) (toISODate todayClock) checkout = [])"
  by (auto simp: doctor_checkout_def select_attendance_records_of Let_def
      split: sum.split option.split)

lemma doctor_checkout_cases:
  obtains (fail) e where "doctor_checkout DATE env db req todayClock stampClock = (Inl e, db)"
  | (ok) data p c where
      "doctor_checkout DATE env db req todayClock stampClock =
         (Inr data, insert_attendance db (user req) checkout stampClock p c)"
      "records_of DATE db (user req) (toISODate todayClock) checkin \<noteq> []"
      "records_of DATE db (user req) (toISODate todayClock) checkout = []"
  using doctor_checkout_outcome [of DATE env db req todayClock stampClock] by blast

text \<open>
  The handlers on a request that has a validated coordinate, a photo and a geofence
  result within the fence: only the queries decide.
\<close>

lemma doctor_checkin_admitted:
  assumes "validateCoordinates (latitude req) (longitude req) = Inr c"
    and "upload req = Some filename"
    and "isWithinGeofence env (lat c) (lng c) = Inr g" and "isWithin g"
  shows "doctor_checkin DATE env db req todayClock stampClock =
    (if select_attendance DATE db (user req) checkin (toISODate todayClock) \<noteq> []
     then (Inl AlreadyCheckedIn, db)
     else (Inr \<lparr> data_timestamp = stampClock, data_photo_path = ''uploads/attendance/'' @ filename,
                 data_location = c, data_geofence = g \<rparr>,
           insert_attendance db (user req) checkin stampClock (''uploads/attendance/'' @ filename) c))"
  using assms by (simp add: doctor_checkin_def Let_def)

lemma doctor_checkout_admitted:
  assumes "validateCoordinates (latitude req) (longitude req) = Inr c"
    and "upload req = Some filename"
    and "isWithinGeofence env (lat c) (lng c) = Inr g" and "isWithin g"
  shows "doctor_checkout DATE env db req todayClock stampClock =
    (if select_attendance DATE db (user req) checkin (toISODate todayClock) = []
     then (Inl NotCheckedIn, db)
     else if select_attendance DATE db (user req) checkout (toISODate todayClock) \<noteq> []
     then (Inl AlreadyCheckedOut, db)
     else (Inr \<lparr> data_timestamp = stampClock, data_photo_path = ''uploads/attendance/'' @ filename,
                 data_location = c, data_geofence = g \<rparr>,
           insert_attendance db (user req) checkout stampClock (''uploads/attendance/'' @ filename) c))"
  using assms by (simp add: doctor_checkout_def Let_def)

lemma site_request_admitted:
  "validateCoordinates (latitude site_request) (longitude site_request) =
     Inr \<lparr> lat = Fin (- 6.2), lng = Fin 106.816666 \<rparr>"
  "upload site_request = Some ''photo.jpg''"
  "user site_request = ''19900101''"
  by (simp_all add: site_request_def validateCoordinates_at_site)

lemma site_checkin:
  "doctor_checkin DATE default_environment db site_request todayClock stampClock =
    (if select_attendance DATE db ''19900101'' checkin (toISODate todayClock) \<noteq> []
     then (Inl AlreadyCheckedIn, db)
     else (Inr \<lparr> data_timestamp = stampClock, data_photo_path = ''uploads/attendance/photo.jpg'',
                 data_location = \<lparr> lat = Fin (- 6.2), lng = Fin 106.816666 \<rparr>,
                 data_geofence = \<lparr> isWithin = True, distance = Fin 0, maxDistance = Fin 500,
                   authorizedLocation = \<lparr> lat = Fin (- 6.2), lng = Fin 106.816666 \<rparr> \<rparr> \<rparr>,
           insert_attendance db ''19900101'' checkin stampClock ''uploads/attendance/photo.jpg''
             \<lparr> lat = Fin (- 6.2), lng = Fin 106.816666 \<rparr>))"
  using doctor_checkin_admitted [OF site_request_admitted(1) site_request_admitted(2),
      of default_environment _ DATE db todayClock stampClock] isWithinGeofence_at_site
  by (simp add: site_request_admitted)

lemma site_checkout:
  "doctor_checkout DATE default_environment db site_request todayClock stampClock =
    (if select_attendance DATE db ''19900101'' checkin (toISODate todayClock) = []
     then (Inl NotCheckedIn, db)
     else if select_attendance DATE db ''19900101'' checkout (toISODate todayClock) \<noteq> []
     then (Inl AlreadyCheckedOut, db)
     else (Inr \<lparr> data_timestamp = stampClock, data_photo_path = ''uploads/attendance/photo.jpg'',
                 data_location = \<lparr> lat = Fin (- 6.2), lng = Fin 106.816666 \<rparr>,
                 data_geofence = \<lparr> isWithin = True, distance = Fin 0, maxDistance = Fin 500,
                   authorizedLocation = \<lparr> lat = Fin (- 6.2), lng = Fin 106.816666 \<rparr> \<rparr> \<rparr>,
           insert_attendance db ''19900101'' checkout stampClock ''uploads/attendance/photo.jpg''
             \<lparr> lat = Fin (- 6.2), lng = Fin 106.816666 \<rparr>))"
  using doctor_checkout_admitted [OF site_request_admitted(1) site_request_admitted(2),
      of default_environment _ DATE db todayClock stampClock] isWithinGeofence_at_site
  by (simp add: site_request_admitted)

subsection \<open>The transitions\<close>

text \<open>
  The transitions where \<open>isWithinGeofence\<close> returns a result within the fence. Such a
  check-in with a photo fails with \<open>AlreadyCheckedIn\<close> when the user has a check-in
  record for the day, and leaves the table as it is. Otherwise it succeeds and appends
  a check-in record of that user whose timestamp is the time the server read from its
  clock; the request has no part in it. After that success every further check-in of
  the same request on the calendar day of the stored record fails with
  \<open>AlreadyCheckedIn\<close>.
\<close>

lemma checkin_transition:
  assumes "validateCoordinates (latitude req) (longitude req) = Inr c"
    and "upload req = Some filename"
    and "isWithinGeofence env (lat c) (lng c) = Inr g" and "isWithin g"
  shows
    "(select_attendance DATE db (user req) checkin (toISODate todayClock) \<noteq> [] \<longrightarrow>
        doctor_checkin DATE env db req todayClock stampClock = (Inl AlreadyCheckedIn, db)) \<and>
     (select_attendance DATE db (user req) checkin (toISODate todayClock) = [] \<longrightarrow>
        (\<exists>data db'.
           doctor_checkin DATE env db req todayClock stampClock = (Inr data, db') \<and>
           data_timestamp data = stampClock \<and>
           attendance db' = attendance db @
             [\<lparr> att_id = auto_increment db, user_id = user req, att_type = checkin,
                timestamp = stampClock, photo_path = ''uploads/attendance/'' @ filename,
                location_lat = lat c, location_lng = lng c \<rparr>] \<and>
           (\<forall>todayClock' stampClock'. toISODate todayClock' = DATE stampClock \<longrightarrow>
              doctor_checkin DATE env db' req todayClock' stampClock' = (Inl AlreadyCheckedIn, db'))))"
proof (intro conjI impI)
  assume "select_attendance DATE db (user req) checkin (toISODate todayClock) \<noteq> []"
  then show "doctor_checkin DATE env db req todayClock stampClock = (Inl AlreadyCheckedIn, db)"
    by (simp add: doctor_checkin_admitted [OF assms])
next
  let ?p = "''uploads/attendance/'' @ filename"
  let ?db' = "insert_attendance db (user req) checkin stampClock ?p c"
  assume none: "select_attendance DATE db (user req) checkin (toISODate todayClock) = []"
  have first: "doctor_checkin DATE env db req todayClock stampClock =
      (Inr \<lparr> data_timestamp = stampClock, data_photo_path = ?p, data_location = c, data_geofence = g \<rparr>, ?db')"
    using none by (simp add: doctor_checkin_admitted [OF assms])
  have rows: "attendance ?db' = attendance db @
      [\<lparr> att_id = auto_increment db, user_id = user req, att_type = checkin,
         timestamp = stampClock, photo_path = ?p, location_lat = lat c, location_lng = lng c \<rparr>]"
    by (simp add: insert_attendance_def new_row_def)
  have again: "doctor_checkin DATE env ?db' req todayClock' stampClock' = (Inl AlreadyCheckedIn, ?db')"
    if "toISODate todayClock' = DATE stampClock" for todayClock' stampClock'
    using that by (simp add: doctor_checkin_admitted [OF assms] select_attendance_insert)
  show "\<exists>data db'.
           doctor_checkin DATE env db req todayClock stampClock = (Inr data, db') \<and>
           data_timestamp data = stampClock \<and>
           attendance db' = attendance db @
             [\<lparr> att_id = auto_increment db, user_id = user req, att_type = checkin,
                timestamp = stampClock, photo_path = ''uploads/attendance/'' @ filename,
                location_lat = lat c, location_lng = lng c \<rparr>] \<and>
           (\<forall>todayClock' stampClock'. toISODate todayClock' = DATE stampClock \<longrightarrow>
              doctor_checkin DATE env db' req todayClock' stampClock' = (Inl AlreadyCheckedIn, db'))"
    using first rows again by auto
qed

lemma checkin_transition_example:
  "validateCoordinates (latitude site_request) (longitude site_request) =
     Inr \<lparr> lat = Fin (- 6.2), lng = Fin 106.816666 \<rparr> \<and>
   upload site_request = Some ''photo.jpg'' \<and>
   (\<exists>g. isWithinGeofence default_environment (Fin (- 6.2)) (Fin 106.816666) = Inr g \<and> isWithin g) \<and>
   select_attendance toISODate empty_database (user site_request) checkin (toISODate 0) = [] \<and>
   (\<exists>data. doctor_checkin toISODate default_environment empty_database site_request 0 0 =
      (Inr data, checked_in_database)) \<and>
   doctor_checkin toISODate default_environment checked_in_database site_request 1000 1000 =
      (Inl AlreadyCheckedIn, checked_in_database) \<and>
   select_attendance toISODate checked_in_database (user site_request) checkin (toISODate 2000) \<noteq> [] \<and>
   doctor_checkin toISODate default_environment checked_in_database site_request 2000 2001 =
      (Inl AlreadyCheckedIn, checked_in_database)"
proof -
  have g: "isWithin \<lparr> isWithin = True, distance = Fin 0, maxDistance = Fin 500,
           authorizedLocation = \<lparr> lat = Fin (- 6.2), lng = Fin 106.816666 \<rparr> \<rparr>"
    by simp
  have w: "isWithinGeofence default_environment
      (lat \<lparr> lat = Fin (- 6.2), lng = Fin 106.816666 \<rparr>)
      (lng \<lparr> lat = Fin (- 6.2), lng = Fin 106.816666 \<rparr>) =
     Inr \<lparr> isWithin = True, distance = Fin 0, maxDistance = Fin 500,
           authorizedLocation = \<lparr> lat = Fin (- 6.2), lng = Fin 106.816666 \<rparr> \<rparr>"
    using isWithinGeofence_at_site by simp
  note t = checkin_transition [OF site_request_admitted(1) site_request_admitted(2) w g,
      of toISODate]
  have none: "select_attendance toISODate empty_database (user site_request) checkin (toISODate 0) = []"
    by (simp add: table_defs)
  have some: "select_attendance toISODate checked_in_database (user site_request) checkin
      (toISODate 2000) \<noteq> []"
    by (simp add: table_defs checked_in_database_def site_request_admitted)
  have day: "toISODate 1000 = toISODate 0" by (simp add: toISODate_def)
  from t [of empty_database 0 0] none
  obtain data db' where
    first: "doctor_checkin toISODate default_environment empty_database site_request 0 0 = (Inr data, db')"
    and again: "\<forall>todayClock' stampClock'. toISODate todayClock' = toISODate 0 \<longrightarrow>
       doctor_checkin toISODate default_environment db' site_request todayClock' stampClock' =
         (Inl AlreadyCheckedIn, db')"
    by blast
  have db': "db' = checked_in_database"
    using first by (auto simp: site_checkin table_defs checked_in_database_def numeral_2_eq_2)
  have third: "doctor_checkin toISODate default_environment checked_in_database site_request 2000 2001 =
      (Inl AlreadyCheckedIn, checked_in_database)"
    using t [of checked_in_database 2000 2001] some by blast
  show ?thesis
    using first again day none some third isWithinGeofence_at_site
    by (simp add: db' site_request_admitted)
qed

text \<open>
  Such a check-out with a photo fails with \<open>NotCheckedIn\<close> when the user has no
  check-in record for the day; with a check-in record it fails with
  \<open>AlreadyCheckedOut\<close> when the user has a check-out record for the day; otherwise
  it succeeds and appends a check-out record of that user whose timestamp is the time
  the server read from its clock. The two queries are made in this order.
\<close>

lemma checkout_transition:
  assumes "validateCoordinates (latitude req) (longitude req) = Inr c"
    and "upload req = Some filename"
    and "isWithinGeofence env (lat c) (lng c) = Inr g" and "isWithin g"
  shows
    "(select_attendance DATE db (user req) checkin (toISODate todayClock) = [] \<longrightarrow>
        doctor_checkout DATE env db req todayClock stampClock = (Inl NotCheckedIn, db)) \<and>
     (select_attendance DATE db (user req) checkin (toISODate todayClock) \<noteq> [] \<and>
      select_attendance DATE db (user req) checkout (toISODate todayClock) \<noteq> [] \<longrightarrow>
        doctor_checkout DATE env db req todayClock stampClock = (Inl AlreadyCheckedOut, db)) \<and>
     (select_attendance DATE db (user req) checkin (toISODate todayClock) \<noteq> [] \<and>
      select_attendance DATE db (user req) checkout (toISODate todayClock) = [] \<longrightarrow>
        (\<exists>data db'.
           doctor_checkout DATE env db req todayClock stampClock = (Inr data, db') \<and>
           data_timestamp data = stampClock \<and>
           attendance db' = attendance db @
             [\<lparr> att_id = auto_increment db, user_id = user req, att_type = checkout,
                timestamp = stampClock, photo_path = ''uploads/attendance/'' @ filename,
                location_lat = lat c, location_lng = lng c \<rparr>]))"
  by (simp add: doctor_checkout_admitted [OF assms] insert_attendance_def new_row_def)

lemma checkout_transition_example:
  "validateCoordinates (latitude site_request) (longitude site_request) =
     Inr \<lparr> lat = Fin (- 6.2), lng = Fin 106.816666 \<rparr> \<and>
   upload site_request = Some ''photo.jpg'' \<and>
   (\<exists>g. isWithinGeofence default_environment (Fin (- 6.2)) (Fin 106.816666) = Inr g \<and> isWithin g) \<and>
   select_attendance toISODate empty_database (user site_request) checkin (toISODate 0) = [] \<and>
   doctor_checkout toISODate default_environment empty_database site_request 0 0 =
      (Inl NotCheckedIn, empty_database) \<and>
   select_attendance toISODate checked_in_database (user site_request) checkin (toISODate 0) \<noteq> [] \<and>
   select_attendance toISODate checked_in_database (user site_request) checkout (toISODate 0) = [] \<and>
   (\<exists>data db'. doctor_checkout toISODate default_environment checked_in_database site_request 0 7 =
      (Inr data, db') \<and> data_timestamp data = 7 \<and>
      map att_type (attendance db') = [checkin, checkout] \<and>
      select_attendance toISODate db' (user site_request) checkin (toISODate 9) \<noteq> [] \<and>
      select_attendance toISODate db' (user site_request) checkout (toISODate 9) \<noteq> [] \<and>
      doctor_checkout toISODate default_environment db' site_request 9 9 =
        (Inl AlreadyCheckedOut, db'))"
proof -
  have g: "isWithin \<lparr> isWithin = True, distance = Fin 0, maxDistance = Fin 500,
           authorizedLocation = \<lparr> lat = Fin (- 6.2), lng = Fin 106.816666 \<rparr> \<rparr>"
    by simp
  have w: "isWithinGeofence default_environment
      (lat \<lparr> lat = Fin (- 6.2), lng = Fin 106.816666 \<rparr>)
      (lng \<lparr> lat = Fin (- 6.2), lng = Fin 106.816666 \<rparr>) =
     Inr \<lparr> isWithin = True, distance = Fin 0, maxDistance = Fin 500,
           authorizedLocation = \<lparr> lat = Fin (- 6.2), lng = Fin 106.816666 \<rparr> \<rparr>"
    using isWithinGeofence_at_site by simp
  note t = checkout_transition [OF site_request_admitted(1) site_request_admitted(2) w g,
      of toISODate]
  have s1: "select_attendance toISODate empty_database (user site_request) checkin (toISODate 0) = []"
    by (simp add: table_defs)
  have s2: "select_attendance toISODate checked_in_database (user site_request) checkin (toISODate 0) \<noteq> []"
    by (simp add: table_defs checked_in_database_def site_request_admitted)
  have s3: "select_attendance toISODate checked_in_database (user site_request) checkout (toISODate 0) = []"
    by (simp add: table_defs checked_in_database_def site_request_admitted)
  have a: "doctor_checkout toISODate default_environment empty_database site_request 0 0 =
      (Inl NotCheckedIn, empty_database)"
    using t [of empty_database 0 0] s1 by blast
  from t [of checked_in_database 0 7] s2 s3
  obtain data db' where
    b: "doctor_checkout toISODate default_environment checked_in_database site_request 0 7 = (Inr data, db')"
      "data_timestamp data = 7"
      "attendance db' = attendance checked_in_database @
             [\<lparr> att_id = auto_increment checked_in_database, user_id = user site_request,
                att_type = checkout, timestamp = 7,
                photo_path = ''uploads/attendance/'' @ ''photo.jpg'',
                location_lat = lat \<lparr> lat = Fin (- 6.2), lng = Fin 106.816666 \<rparr>,
                location_lng = lng \<lparr> lat = Fin (- 6.2), lng = Fin 106.816666 \<rparr> \<rparr>]"
    by blast
  have m: "map att_type (attendance db') = [checkin, checkout]"
    using b(3) by (simp add: checked_in_database_def)
  have s4: "select_attendance toISODate db' (user site_request) checkin (toISODate 9) \<noteq> []"
    using b(3) by (simp add: select_attendance_def toISODate_def checked_in_database_def
        site_request_admitted)
  have s5: "select_attendance toISODate db' (user site_request) checkout (toISODate 9) \<noteq> []"
    using b(3) by (simp add: select_attendance_def toISODate_def checked_in_database_def
        site_request_admitted)
  have c: "doctor_checkout toISODate default_environment db' site_request 9 9 =
      (Inl AlreadyCheckedOut, db')"
    using t [of db' 9 9] s4 s5 by blast
  show ?thesis
    using a b(1,2) m s1 s2 s3 s4 s5 c isWithinGeofence_at_site
    by (simp add: site_request_admitted)
qed

subsection \<open>The transitions on the equator\<close>

lemma equator_request_validated:
  "validateCoordinates (latitude equator_request) (longitude equator_request) =
     Inr \<lparr> lat = Fin 0, lng = Fin 100 \<rparr>"
  by (simp add: equator_request_def validateCoordinates_def isNaN_def js_gt_def
      parseFloat_0 parseFloat_100)

lemma equator_request_distance:
  "calculateDistance (authorizedLat equator_site) (authorizedLng equator_site) (Fin 0) (Fin 100) =
     Fin 0 \<and> js_le (Fin 0) (radius equator_site)"
  by (simp add: authorizedLat_def authorizedLng_def radius_def env_or_def equator_site_def
      parseFloat_0 parseFloat_100 calculateDistance_finite_same js_le_def)

lemma equator_request_throws:
  "isWithinGeofence equator_site (Fin 0) (Fin 100) = Inl InvalidCoordinates"
  by (simp add: isWithinGeofence_def js_not_def)

lemma equator_request_fields:
  "upload equator_request = Some ''photo.jpg''" "user equator_request = ''19900101''"
  by (simp_all add: equator_request_def)

text \<open>Whatever the table holds, both handlers answer this request with status 500.\<close>

lemma equator_checkin_500:
  "doctor_checkin DATE equator_site db equator_request todayClock stampClock =
     (Inl InternalServerError, db)"
  by (simp add: doctor_checkin_def equator_request_validated equator_request_throws
      equator_request_fields)

lemma equator_checkout_500:
  "doctor_checkout DATE equator_site db equator_request todayClock stampClock =
     (Inl InternalServerError, db)"
  by (simp add: doctor_checkout_def equator_request_validated equator_request_throws
      equator_request_fields)

text \<open>
  Claim C4 at the authorized location \<open>(0, 100)\<close>. The request has a photo, its
  coordinate is validated and lies 0 meters from the authorized location, and the
  user has no check-in record for the day: the check-in does not succeed. The handler
  answers with status 500 and stores nothing, because \<open>isWithinGeofence\<close> throws on
  the latitude 0.
\<close>

theorem checkin_on_equator_fails:
  "validateCoordinates (latitude equator_request) (longitude equator_request) =
     Inr \<lparr> lat = Fin 0, lng = Fin 100 \<rparr> \<and>
   upload equator_request = Some ''photo.jpg'' \<and>
   calculateDistance (authorizedLat equator_site) (authorizedLng equator_site) (Fin 0) (Fin 100) =
     Fin 0 \<and>
   js_le (Fin 0) (radius equator_site) \<and>
   select_attendance toISODate empty_database (user equator_request) checkin (toISODate 0) = [] \<and>
   doctor_checkin toISODate equator_site empty_database equator_request 0 0 =
     (Inl InternalServerError, empty_database)"
  using equator_request_distance
  by (simp add: equator_checkin_500 equator_request_validated equator_request_fields
      table_defs)

text \<open>
  Claim C3 at the authorized location \<open>(0, 100)\<close>. The request has a photo and its
  coordinate is validated and lies 0 meters from the authorized location. With a
  check-in record and no check-out record for the day the check-out does not succeed,
  and with no check-in record it does not fail with \<open>NotCheckedIn\<close>: in both tables
  the handler answers with status 500 and stores nothing.
\<close>

theorem checkout_on_equator_fails:
  "validateCoordinates (latitude equator_request) (longitude equator_request) =
     Inr \<lparr> lat = Fin 0, lng = Fin 100 \<rparr> \<and>
   upload equator_request = Some ''photo.jpg'' \<and>
   calculateDistance (authorizedLat equator_site) (authorizedLng equator_site) (Fin 0) (Fin 100) =
     Fin 0 \<and>
   js_le (Fin 0) (radius equator_site) \<and>
   select_attendance toISODate checked_in_database (user equator_request) checkin (toISODate 0) \<noteq> [] \<and>
   select_attendance toISODate checked_in_database (user equator_request) checkout (toISODate 0) = [] \<and>
   doctor_checkout toISODate equator_site checked_in_database equator_request 0 0 =
     (Inl InternalServerError, checked_in_database) \<and>
   select_attendance toISODate empty_database (user equator_request) checkin (toISODate 0) = [] \<and>
   doctor_checkout toISODate equator_site empty_database equator_request 0 0 =
     (Inl InternalServerError, empty_database)"
  using equator_request_distance
  by (simp add: equator_checkout_500 equator_request_validated equator_request_fields
      table_defs checked_in_database_def)

subsection \<open>Failures create no record\<close>

lemma isWithinGeofence_north:
  "\<exists>g. isWithinGeofence default_environment (Fin (- 5.2)) (Fin 106.816666) = Inr g \<and> \<not> isWithin g"
proof -
  have "calculateDistance_finite (- 6.2) 106.816666 (- 5.2) 106.816666 =
          Fin (6371000 * ((- 5.2 - (- 6.2)) * pi / 180))"
    by (intro calculateDistance_finite_meridian) simp_all
  then have d: "calculateDistance_finite (- 6.2) 106.816666 (- 5.2) 106.816666 =
          Fin (6371000 * pi / 180)"
    by simp
  have "500 * 180 < 6371000 * (2::real)" by simp
  also have "\<dots> \<le> 6371000 * pi" using pi_ge_two by simp
  finally have far: "500 < 6371000 * pi / 180" by simp
  show ?thesis
    using d far
    by (simp add: isWithinGeofence_def default_config js_not_def js_gt_def js_le_def)
qed

text \<open>
  Claim C9. A check-in or a check-out that fails returns the failure and leaves the
  table as it is; one that succeeds appends exactly one record. An invalid coordinate,
  a missing photo and a coordinate outside the fence are each returned as that failure.
\<close>

theorem record_created_exactly_on_success:
  "(case doctor_checkin DATE env db req todayClock stampClock of
      (Inl e, db') \<Rightarrow> db' = db
    | (Inr data, db') \<Rightarrow>
        attendance db' = attendance db @
          [new_row db (user req) checkin stampClock (data_photo_path data) (data_location data)]) \<and>
   (case doctor_checkout DATE env db req todayClock stampClock of
      (Inl e, db') \<Rightarrow> db' = db
    | (Inr data, db') \<Rightarrow>
        attendance db' = attendance db @
          [new_row db (user req) checkout stampClock (data_photo_path data) (data_location data)]) \<and>
   (validateCoordinates (latitude req) (longitude req) = Inl e \<longrightarrow>
      doctor_checkin DATE env db req todayClock stampClock = (Inl e, db) \<and>
      doctor_checkout DATE env db req todayClock stampClock = (Inl e, db)) \<and>
   (validateCoordinates (latitude req) (longitude req) = Inr c \<and> upload req = None \<longrightarrow>
      doctor_checkin DATE env db req todayClock stampClock = (Inl PhotoRequired, db) \<and>
      doctor_checkout DATE env db req todayClock stampClock = (Inl PhotoRequired, db)) \<and>
   (validateCoordinates (latitude req) (longitude req) = Inr c \<and> upload req = Some filename \<and>
    isWithinGeofence env (lat c) (lng c) = Inr g \<and> \<not> isWithin g \<longrightarrow>
      doctor_checkin DATE env db req todayClock stampClock = (Inl (OutsideGeofence g), db) \<and>
      doctor_checkout DATE env db req todayClock stampClock = (Inl (OutsideGeofence g), db))"
  by (simp add: doctor_checkin_def doctor_checkout_def Let_def insert_attendance_def
      split: sum.split option.split)

theorem record_created_exactly_on_success_witness:
  "validateCoordinates (latitude (site_request \<lparr> latitude := JSString ''abc'' \<rparr>))
     (longitude (site_request \<lparr> latitude := JSString ''abc'' \<rparr>)) = Inl InvalidFormat \<and>
   doctor_checkin toISODate default_environment checked_in_database
     (site_request \<lparr> latitude := JSString ''abc'' \<rparr>) 0 0 = (Inl InvalidFormat, checked_in_database) \<and>
   upload (site_request \<lparr> upload := None \<rparr>) = None \<and>
   doctor_checkout toISODate default_environment checked_in_database
     (site_request \<lparr> upload := None \<rparr>) 0 0 = (Inl PhotoRequired, checked_in_database) \<and>
   (\<exists>g. isWithinGeofence default_environment (Fin (- 5.2)) (Fin 106.816666) = Inr g \<and>
        \<not> isWithin g \<and>
        doctor_checkout toISODate default_environment checked_in_database
          (site_request \<lparr> latitude := JSString ''-5.2'' \<rparr>) 0 0 =
            (Inl (OutsideGeofence g), checked_in_database)) \<and>
   snd (doctor_checkin toISODate default_environment checked_in_database site_request 0 0) =
     checked_in_database \<and>
   map att_type (attendance
     (snd (doctor_checkout toISODate default_environment checked_in_database site_request 0 0))) =
     [checkin, checkout]"
proof -
  let ?bad = "site_request \<lparr> latitude := JSString ''abc'' \<rparr>"
  let ?nophoto = "site_request \<lparr> upload := None \<rparr>"
  let ?north = "site_request \<lparr> latitude := JSString ''-5.2'' \<rparr>"
  have v1: "validateCoordinates (latitude ?bad) (longitude ?bad) = Inl InvalidFormat"
    by (simp add: site_request_def validateCoordinates_def isNaN_def parseFloat_abc)
  have v2: "validateCoordinates (latitude ?nophoto) (longitude ?nophoto) =
      Inr \<lparr> lat = Fin (- 6.2), lng = Fin 106.816666 \<rparr> \<and> upload ?nophoto = None"
    by (simp add: site_request_def validateCoordinates_at_site)
  have p: "parseFloat_string ''-5.2'' = Fin (- 5.2)" by (simp add: parse_defs)
  have v3: "validateCoordinates (latitude ?north) (longitude ?north) =
      Inr \<lparr> lat = Fin (- 5.2), lng = Fin 106.816666 \<rparr> \<and> upload ?north = Some ''photo.jpg''"
    by (simp add: site_request_def validateCoordinates_def isNaN_def js_gt_def p parseFloat_lng)
  obtain g where g: "isWithinGeofence default_environment (Fin (- 5.2)) (Fin 106.816666) = Inr g"
      "\<not> isWithin g"
    using isWithinGeofence_north by blast
  note t = record_created_exactly_on_success [where DATE = toISODate
      and env = default_environment and db = checked_in_database and todayClock = 0
      and stampClock = 0]
  have a: "doctor_checkin toISODate default_environment checked_in_database ?bad 0 0 =
      (Inl InvalidFormat, checked_in_database)"
    using t [where req = ?bad and e = InvalidFormat] v1 by blast
  have b: "doctor_checkout toISODate default_environment checked_in_database ?nophoto 0 0 =
      (Inl PhotoRequired, checked_in_database)"
    using t [where req = ?nophoto and c = "\<lparr> lat = Fin (- 6.2), lng = Fin 106.816666 \<rparr>"] v2 by blast
  have c: "doctor_checkout toISODate default_environment checked_in_database ?north 0 0 =
      (Inl (OutsideGeofence g), checked_in_database)"
    using t [where req = ?north and c = "\<lparr> lat = Fin (- 5.2), lng = Fin 106.816666 \<rparr>"
        and filename = "''photo.jpg''" and g = g] v3 g
    by simp
  have d: "snd (doctor_checkin toISODate default_environment checked_in_database site_request 0 0) =
     checked_in_database"
    by (simp add: site_checkin table_defs checked_in_database_def)
  have e: "map att_type (attendance
     (snd (doctor_checkout toISODate default_environment checked_in_database site_request 0 0))) =
     [checkin, checkout]"
    by (simp add: site_checkout table_defs checked_in_database_def)
  show ?thesis using v1 v2 a b c d e g by blast
qed

subsection \<open>The invariant of the records\<close>

lemma step_at_most_one_each:
  assumes "at_most_one_each DATE db" "same_day DATE op"
  shows "at_most_one_each DATE (step DATE env db op)"
proof (cases op)
  case (CheckIn req todayClock stampClock)
  show ?thesis
  proof (cases rule: doctor_checkin_cases [of DATE env db req todayClock stampClock])
    case (fail e)
    then show ?thesis using assms CheckIn by simp
  next
    case (ok data p c)
    then show ?thesis using assms CheckIn
      by (auto simp: at_most_one_each_def records_of_insert)
  qed
next
  case (CheckOut req todayClock stampClock)
  show ?thesis
  proof (cases rule: doctor_checkout_cases [of DATE env db req todayClock stampClock])
    case (fail e)
    then show ?thesis using assms CheckOut by simp
  next
    case (ok data p c)
    then show ?thesis using assms CheckOut
      by (auto simp: at_most_one_each_def records_of_insert)
  qed
next
  case (DeleteAttendance attendanceId)
  have le: "length (filter P xs) \<le> Suc 0" if "length xs \<le> Suc 0"
    for P and xs :: "attendance_row list"
    using that length_filter_le [of P xs] by linarith
  show ?thesis using assms DeleteAttendance
    by (auto simp: at_most_one_each_def delete_attendance_def Let_def records_of_delete intro!: le)
qed

lemma step_checkout_has_checkin:
  assumes "checkout_has_checkin DATE db" "same_day DATE op" "\<not> is_delete op"
  shows "checkout_has_checkin DATE (step DATE env db op)"
proof (cases op)
  case (CheckIn req todayClock stampClock)
  show ?thesis
  proof (cases rule: doctor_checkin_cases [of DATE env db req todayClock stampClock])
    case (fail e)
    then show ?thesis using assms CheckIn by simp
  next
    case (ok data p c)
    then show ?thesis using assms CheckIn
      by (auto simp: checkout_has_checkin_def records_of_insert)
  qed
next
  case (CheckOut req todayClock stampClock)
  show ?thesis
  proof (cases rule: doctor_checkout_cases [of DATE env db req todayClock stampClock])
    case (fail e)
    then show ?thesis using assms CheckOut by simp
  next
    case (ok data p c)
    then show ?thesis using assms CheckOut
      by (auto simp: checkout_has_checkin_def records_of_insert)
  qed
next
  case (DeleteAttendance attendanceId)
  then show ?thesis using assms by simp
qed

lemma foldl_step_at_most_one_each:
  "at_most_one_each DATE db \<Longrightarrow> list_all (same_day DATE) ops \<Longrightarrow>
     at_most_one_each DATE (foldl (step DATE env) db ops)"
  by (induction ops arbitrary: db) (simp_all add: step_at_most_one_each)

lemma foldl_step_checkout_has_checkin:
  "checkout_has_checkin DATE db \<Longrightarrow> list_all (same_day DATE) ops \<Longrightarrow>
     list_all (\<lambda>op. \<not> is_delete op) ops \<Longrightarrow>
     checkout_has_checkin DATE (foldl (step DATE env) db ops)"
  by (induction ops arbitrary: db) (simp_all add: step_checkout_has_checkin)

subsection \<open>The calendar day of a stored record\<close>

text \<open>
  The hypothesis that an operation stores its record on the day it checked is needed.
  A check-out whose two clock readings lie on both sides of midnight is stored on the
  next day, where the user has no check-in record.
\<close>

lemma checkout_across_midnight:
  "\<not> same_day toISODate (CheckOut site_request 86399999 86400000) \<and>
   map (\<lambda>r. (att_type r, toISODate (timestamp r)))
     (attendance (run toISODate default_environment
        [CheckIn site_request 86399000 86399000, CheckOut site_request 86399999 86400000])) =
     [(checkin, 0), (checkout, 1)] \<and>
   \<not> checkout_has_checkin toISODate (run toISODate default_environment
        [CheckIn site_request 86399000 86399000, CheckOut site_request 86399999 86400000])"
proof -
  have r: "run toISODate default_environment
        [CheckIn site_request 86399000 86399000, CheckOut site_request 86399999 86400000] =
      \<lparr> attendance =
         [\<lparr> att_id = 1, user_id = ''19900101'', att_type = checkin, timestamp = 86399000,
            photo_path = ''uploads/attendance/photo.jpg'',
            location_lat = Fin (- 6.2), location_lng = Fin 106.816666 \<rparr>,
          \<lparr> att_id = 2, user_id = ''19900101'', att_type = checkout, timestamp = 86400000,
            photo_path = ''uploads/attendance/photo.jpg'',
            location_lat = Fin (- 6.2), location_lng = Fin 106.816666 \<rparr>],
        auto_increment = 3 \<rparr>"
    by (simp add: run_def site_checkin site_checkout table_defs)
  have "records_of toISODate (run toISODate default_environment
        [CheckIn site_request 86399000 86399000, CheckOut site_request 86399999 86400000])
        ''19900101'' 1 checkout \<noteq> [] \<and>
      records_of toISODate (run toISODate default_environment
        [CheckIn site_request 86399000 86399000, CheckOut site_request 86399999 86400000])
        ''19900101'' 1 checkin = []"
    unfolding r by (simp add: records_of_def toISODate_def)
  then have "\<not> checkout_has_checkin toISODate (run toISODate default_environment
        [CheckIn site_request 86399000 86399000, CheckOut site_request 86399999 86400000])"
    unfolding checkout_has_checkin_def by blast
  then show ?thesis unfolding r by (simp add: toISODate_def)
qed

text \<open>
  With a database whose dates run ahead of UTC, a check-in late in the UTC day is
  stored on the next day of the database, and the query for the UTC day does not find
  it: the same request checks in twice.
\<close>

lemma checkin_twice_when_dates_differ:
  "\<not> same_day DATE_ahead (CheckIn site_request 61200000 61200000) \<and>
   map (\<lambda>r. (att_type r, DATE_ahead (timestamp r)))
     (attendance (run DATE_ahead default_environment
        [CheckIn site_request 61200000 61200000, CheckIn site_request 61201000 61201000])) =
     [(checkin, 1), (checkin, 1)] \<and>
   \<not> at_most_one_each DATE_ahead (run DATE_ahead default_environment
        [CheckIn site_request 61200000 61200000, CheckIn site_request 61201000 61201000])"
proof -
  have r: "run DATE_ahead default_environment
        [CheckIn site_request 61200000 61200000, CheckIn site_request 61201000 61201000] =
      \<lparr> attendance =
         [\<lparr> att_id = 1, user_id = ''19900101'', att_type = checkin, timestamp = 61200000,
            photo_path = ''uploads/attendance/photo.jpg'',
            location_lat = Fin (- 6.2), location_lng = Fin 106.816666 \<rparr>,
          \<lparr> att_id = 2, user_id = ''19900101'', att_type = checkin, timestamp = 61201000,
            photo_path = ''uploads/attendance/photo.jpg'',
            location_lat = Fin (- 6.2), location_lng = Fin 106.816666 \<rparr>],
        auto_increment = 3 \<rparr>"
    by (simp add: run_def site_checkin table_defs DATE_ahead_def)
  have "length (records_of DATE_ahead (run DATE_ahead default_environment
        [CheckIn site_request 61200000 61200000, CheckIn site_request 61201000 61201000])
        ''19900101'' 1 checkin) = 2"
    unfolding r by (simp add: records_of_def DATE_ahead_def)
  then have "\<not> at_most_one_each DATE_ahead (run DATE_ahead default_environment
        [CheckIn site_request 61200000 61200000, CheckIn site_request 61201000 61201000])"
    unfolding at_most_one_each_def by (metis Suc_1 not_less_eq_eq order_refl)
  then show ?thesis unfolding r by (simp add: toISODate_def DATE_ahead_def)
qed

text \<open>
  Claim C1, as the code has it. Take any sequence of check-ins, check-outs and
  administrative deletions from the empty table in which every check-in and check-out
  stores its record on the calendar day it checked. Then every user has at most one
  check-in record and at most one check-out record on any calendar day; and when the
  sequence has no deletion, a check-out record of a user on a day exists only with a
  check-in record of that user on that day.
\<close>

theorem attendance_records_invariant:
  assumes "list_all (same_day DATE) ops"
  shows "at_most_one_each DATE (run DATE env ops) \<and>
         (list_all (\<lambda>op. \<not> is_delete op) ops \<longrightarrow> checkout_has_checkin DATE (run DATE env ops))"
proof -
  have "at_most_one_each DATE empty_database"
    by (simp add: at_most_one_each_def records_of_def empty_database_def)
  moreover have "checkout_has_checkin DATE empty_database"
    by (simp add: checkout_has_checkin_def records_of_def empty_database_def)
  ultimately show ?thesis
    using assms unfolding run_def
    by (simp add: foldl_step_at_most_one_each foldl_step_checkout_has_checkin)
qed

theorem attendance_records_invariant_witness:
  "list_all (same_day toISODate)
     [CheckIn site_request 0 0, CheckIn site_request 5 5, CheckOut site_request 10 10] \<and>
   list_all (\<lambda>op. \<not> is_delete op)
     [CheckIn site_request 0 0, CheckIn site_request 5 5, CheckOut site_request 10 10] \<and>
   at_most_one_each toISODate (run toISODate default_environment
     [CheckIn site_request 0 0, CheckIn site_request 5 5, CheckOut site_request 10 10]) \<and>
   checkout_has_checkin toISODate (run toISODate default_environment
     [CheckIn site_request 0 0, CheckIn site_request 5 5, CheckOut site_request 10 10]) \<and>
   map att_type (attendance (run toISODate default_environment
     [CheckIn site_request 0 0, CheckIn site_request 5 5, CheckOut site_request 10 10])) =
     [checkin, checkout]"
proof -
  have r: "map att_type (attendance (run toISODate default_environment
     [CheckIn site_request 0 0, CheckIn site_request 5 5, CheckOut site_request 10 10])) =
     [checkin, checkout]"
    by (simp add: run_def site_checkin site_checkout table_defs)
  show ?thesis
    using attendance_records_invariant [of toISODate
        "[CheckIn site_request 0 0, CheckIn site_request 5 5, CheckOut site_request 10 10]"
        default_environment] r
    by (simp add: toISODate_def)
qed

lemma run_checkin_checkout_delete:
  "run toISODate default_environment
     [CheckIn site_request 0 0, CheckOut site_request 0 0, DeleteAttendance 1] =
   \<lparr> attendance =
       [\<lparr> att_id = 2, user_id = ''19900101'', att_type = checkout, timestamp = 0,
          photo_path = ''uploads/attendance/photo.jpg'',
          location_lat = Fin (- 6.2), location_lng = Fin 106.816666 \<rparr>],
     auto_increment = 3 \<rparr>"
  by (simp add: run_def site_checkin site_checkout table_defs)

text \<open>
  Claim C1 as the specification states it fails: after a check-in and a check-out,
  the administrative deletion of the check-in record leaves a check-out record with
  no check-in record of that user on that day.
\<close>

theorem deleted_checkin_leaves_checkout_counterexample:
  "list_all (same_day toISODate)
     [CheckIn site_request 0 0, CheckOut site_request 0 0, DeleteAttendance 1] \<and>
   \<not> attendance_invariant toISODate
       (run toISODate default_environment
          [CheckIn site_request 0 0, CheckOut site_request 0 0, DeleteAttendance 1])"
proof -
  have "\<not> checkout_has_checkin toISODate
       (run toISODate default_environment
          [CheckIn site_request 0 0, CheckOut site_request 0 0, DeleteAttendance 1])"
    unfolding run_checkin_checkout_delete checkout_has_checkin_def
    by (simp add: records_of_def toISODate_def)
  then show ?thesis by (simp add: attendance_invariant_def toISODate_def)
qed

end
